theory Spec2Isabelle
  imports Main "HOL-Library.Sublist"
begin

section \<open>Strings\<close>

text \<open>
  A Python \<open>str\<close> is modelled as a \<open>string\<close>; a \<open>char\<close> stands for the code point of
  the same number, so the model covers the strings whose code points lie below 256.
\<close>

definition dq :: char where
  "dq = CHR 0x22"

definition sq :: char where
  "sq = CHR 0x27"

definition nl :: char where
  "nl = CHR 0x0A"

definition bsl :: char where
  "bsl = CHR 0x5C"

text \<open>\<open>old.replace(c, new)\<close> for a pattern \<open>c\<close> of one character.\<close>

fun replace_char :: "char \<Rightarrow> string \<Rightarrow> string \<Rightarrow> string" where
  "replace_char c new [] = []"
| "replace_char c new (x # xs) =
     (if x = c then new @ replace_char c new xs else x # replace_char c new xs)"

text \<open>\<open>sep.join(parts)\<close>.\<close>

fun join :: "string \<Rightarrow> string list \<Rightarrow> string" where
  "join sep [] = []"
| "join sep [x] = x"
| "join sep (x # y # ys) = x @ sep @ join sep (y # ys)"

text \<open>Decimal digits, and the zero-padded fields that \<open>strftime\<close> writes.\<close>

definition digit_char :: "nat \<Rightarrow> char" where
  "digit_char d = ''0123456789'' ! (d mod 10)"

definition pad2 :: "nat \<Rightarrow> string" where
  "pad2 n = [digit_char (n div 10), digit_char n]"

definition pad4 :: "nat \<Rightarrow> string" where
  "pad4 n = [digit_char (n div 1000), digit_char (n div 100), digit_char (n div 10), digit_char n]"

section \<open>The quoting rule\<close>

text \<open>
  \<^verbatim>\<open>def _quote_ps_arg(value): return '"' + value.replace('"', '""') + '"'\<close>
\<close>

definition quote_ps_arg :: "string \<Rightarrow> string" where
  "quote_ps_arg value = [dq] @ replace_char dq [dq, dq] value @ [dq]"

text \<open>
  The inverse of the quoting rule, written after the words of the specification
  (``strip the outer quotes, collapse each doubled quote''); the program has no
  such function. A text that is not wrapped in double quotes has no reading.
\<close>

fun collapse_doubled :: "string \<Rightarrow> string" where
  "collapse_doubled (x # y # zs) =
     (if x = dq \<and> y = dq then dq # collapse_doubled zs
      else x # collapse_doubled (y # zs))"
| "collapse_doubled zs = zs"

definition unquote_spec :: "string \<Rightarrow> string option" where
  "unquote_spec s =
     (if 2 \<le> length s \<and> hd s = dq \<and> last s = dq
      then Some (collapse_doubled (butlast (tl s))) else None)"

section \<open>Task specifications\<close>

text \<open>
  \<open>at\<close> is a string or a \<open>datetime.time\<close> (hour below 24, minute below 60);
  \<open>on\<close> is absent, a \<open>date\<close> (year 1 to 9999) or a sequence of day names.
\<close>

datatype at_value = AtStr string | AtTime nat nat

datatype date = Date nat nat nat

datatype on_value = OnNone | OnDate date | OnDays "string list"

record PythonTask =
  name :: string
  script :: string
  python :: string
  args :: "string list option"
  frequency :: string
  at :: at_value
  on :: on_value
  description :: string
  user :: "string option"
  password :: "string option"

text \<open>
  What the program reads from its surroundings: the file system, through
  \<open>Path(p).expanduser().resolve()\<close>, and the clock, through \<open>datetime.now()\<close>
  (the date of today and the name of the weekday, \<open>strftime("%A")\<close>).
\<close>

record env =
  resolve :: "string \<Rightarrow> string"
  today :: date
  weekday_name :: string

definition to_path_str :: "env \<Rightarrow> string \<Rightarrow> string" where
  "to_path_str e p = resolve e p"

text \<open>\<open>t.strftime("%H:%M")\<close> and \<open>d.strftime("%Y-%m-%d")\<close>, the year on four digits.\<close>

fun strftime_HM :: "nat \<Rightarrow> nat \<Rightarrow> string" where
  "strftime_HM h m = pad2 h @ '':'' @ pad2 m"

fun strftime_Ymd :: "date \<Rightarrow> string" where
  "strftime_Ymd (Date y m d) = pad4 y @ ''-'' @ pad2 m @ ''-'' @ pad2 d"

text \<open>The truth value of an optional string: absent and empty both count as false.\<close>

fun truthy :: "string option \<Rightarrow> bool" where
  "truthy None = False"
| "truthy (Some s) = (s \<noteq> [])"

text \<open>The string held by an optional string that is true.\<close>

fun opt_str :: "string option \<Rightarrow> string" where
  "opt_str None = []"
| "opt_str (Some s) = s"

section \<open>Command builder\<close>

definition build_action :: "env \<Rightarrow> PythonTask \<Rightarrow> string" where
  "build_action e t =
     (let py = to_path_str e (python t);
          scr = to_path_str e (script t);
          arg_parts = [scr] @ (case args t of None \<Rightarrow> [] | Some xs \<Rightarrow> xs);
          ps_args = join '' '' (map quote_ps_arg arg_parts)
      in ''$action = New-ScheduledTaskAction -Execute '' @ quote_ps_arg py
           @ '' -Argument '' @ ps_args)"

fun at_str :: "at_value \<Rightarrow> string" where
  "at_str (AtTime h m) = strftime_HM h m"
| "at_str (AtStr s) = s"

text \<open>
  The day list of the weekly trigger: \<open>None\<close> unless \<open>on\<close> is true and iterable,
  then the names joined by commas.
\<close>

fun weekly_days :: "on_value \<Rightarrow> string option" where
  "weekly_days OnNone = None"
| "weekly_days (OnDate d) = None"
| "weekly_days (OnDays ds) = (if ds = [] then None else Some (join '','' ds))"

definition build_trigger :: "env \<Rightarrow> PythonTask \<Rightarrow> string" where
  "build_trigger e t =
     (let freq = frequency t in
      if freq = ''Once'' then
        (let run_date = (case on t of OnDate d \<Rightarrow> d | _ \<Rightarrow> today e);
             dt_str = strftime_Ymd run_date @ '' '' @ at_str (at t)
         in ''$trigger = New-ScheduledTaskTrigger -Once -At (Get-Date '' @ quote_ps_arg dt_str @ '')'')
      else if freq = ''Weekly'' then
        (let days = (case weekly_days (on t) of
                       None \<Rightarrow> weekday_name e
                     | Some ds \<Rightarrow> if ds = [] then weekday_name e else ds)
         in ''$trigger = New-ScheduledTaskTrigger -Weekly -DaysOfWeek '' @ days @ '' -At '' @ at_str (at t))
      else ''$trigger = New-ScheduledTaskTrigger -Daily -At '' @ at_str (at t))"

text \<open>The local \<open>base\<close> of \<open>_build_register\<close>.\<close>

definition register_base :: "env \<Rightarrow> PythonTask \<Rightarrow> string" where
  "register_base e t =
     ''$description = '' @ quote_ps_arg (description t) @ ''; $taskName = ''
       @ quote_ps_arg (name t) @ ''; '' @ build_action e t @ ''; '' @ build_trigger e t @ ''; ''"

definition build_register :: "env \<Rightarrow> PythonTask \<Rightarrow> string" where
  "build_register e t =
     (let base = register_base e t in
      if truthy (user t) \<and> truthy (password t) then
        base @ ''Register-ScheduledTask -TaskName $taskName -Description $description ''
          @ ''-Action $action -Trigger $trigger -User ''
          @ quote_ps_arg (opt_str (user t)) @ '' -Password '' @ quote_ps_arg (opt_str (password t))
          @ '' | Out-Null''
      else if truthy (user t) then
        base @ ''Register-ScheduledTask -TaskName $taskName -Description $description ''
          @ ''-Action $action -Trigger $trigger -User '' @ quote_ps_arg (opt_str (user t))
          @ '' | Out-Null''
      else
        base @ ''Register-ScheduledTask -TaskName $taskName -Description $description -Action $action -Trigger $trigger | Out-Null'')"

section \<open>The host scheduler\<close>

text \<open>
  \<open>_run_powershell(script)\<close> hands a script to the host through \<open>subprocess.run\<close>
  and returns the completed process: exit code, standard output and standard error.
  Nothing there catches an exception. A script that holds the character NUL is
  refused with \<open>ValueError\<close> before anything is started. The host may fail to start
  the shell, which raises \<open>OSError\<close> (\<open>FileNotFoundError\<close> is one), or deliver output
  that cannot be decoded as text, which raises \<open>UnicodeDecodeError\<close>. The host is a
  function of the script and of its own state; the scripts handed over are recorded
  in order.
\<close>

record completed =
  returncode :: int
  stdout :: string
  stderr :: string

datatype error =
    TaskError string
  | TaskAlreadyExistsError string
  | TaskNotFoundError string
  | ValueError
  | OSError
  | UnicodeDecodeError

datatype failure = NotStarted | Undecodable

type_synonym 'w host = "string \<Rightarrow> 'w \<Rightarrow> (failure + completed) \<times> 'w"

record 'w world =
  host_state :: 'w
  issued :: "string list"

definition run_powershell ::
  "'w host \<Rightarrow> string \<Rightarrow> 'w world \<Rightarrow> (error + completed) \<times> 'w world" where
  "run_powershell h scr w =
     (if CHR 0x00 \<in> set scr then (Inl ValueError, w)
      else (let (r, s') = h scr (host_state w);
                w' = \<lparr>host_state = s', issued = issued w @ [scr]\<rparr>
            in case r of
                 Inl NotStarted \<Rightarrow> (Inl OSError, w')
               | Inl Undecodable \<Rightarrow> (Inl UnicodeDecodeError, w')
               | Inr res \<Rightarrow> (Inr res, w')))"

text \<open>\<open>s.strip()\<close>: white space is removed at both ends.\<close>

definition isspace :: "char \<Rightarrow> bool" where
  "isspace c = (c \<in> set [CHR 0x09, CHR 0x0A, CHR 0x0B, CHR 0x0C, CHR 0x0D, CHR 0x1C,
                           CHR 0x1D, CHR 0x1E, CHR 0x1F, CHR 0x20, CHR 0x85, CHR 0xA0])"

definition strip :: "string \<Rightarrow> string" where
  "strip s = rev (dropWhile isspace (rev (dropWhile isspace s)))"

text \<open>The message of a failed invocation: \<open>f"Failed to {what} task '{name}':\n{stderr}\n{stdout}"\<close>.\<close>

definition failed_msg :: "string \<Rightarrow> string \<Rightarrow> completed \<Rightarrow> string" where
  "failed_msg what n res =
     ''Failed to '' @ what @ '' task '' @ [sq] @ n @ [sq] @ '':'' @ [nl]
       @ strip (stderr res) @ [nl] @ strip (stdout res)"

section \<open>Operations on one task\<close>

definition exists_script :: "PythonTask \<Rightarrow> string" where
  "exists_script t =
     ''$ErrorActionPreference='' @ [sq] @ ''SilentlyContinue'' @ [sq]
       @ ''; Get-ScheduledTask -TaskName '' @ quote_ps_arg (name t) @ '' | Out-Null; ''
       @ ''if ($?) { exit 0 } else { exit 1 }''"

definition PythonTask_exists ::
  "'w host \<Rightarrow> PythonTask \<Rightarrow> 'w world \<Rightarrow> (error + bool) \<times> 'w world" where
  "PythonTask_exists h t w =
     (case run_powershell h (exists_script t) w of
        (Inl err, w') \<Rightarrow> (Inl err, w')
      | (Inr res, w') \<Rightarrow> (Inr (returncode res = 0), w'))"

definition delete_script :: "PythonTask \<Rightarrow> string" where
  "delete_script t =
     ''Unregister-ScheduledTask -TaskName '' @ quote_ps_arg (name t) @ '' -Confirm:$false''"

definition PythonTask_delete ::
  "'w host \<Rightarrow> PythonTask \<Rightarrow> 'w world \<Rightarrow> (error + unit) \<times> 'w world" where
  "PythonTask_delete h t w =
     (case PythonTask_exists h t w of
        (Inl err, w1) \<Rightarrow> (Inl err, w1)
      | (Inr ex, w1) \<Rightarrow>
          if \<not> ex then
            (Inl (TaskNotFoundError (''Task '' @ [sq] @ name t @ [sq] @ '' not found'')), w1)
          else
            (case run_powershell h (delete_script t) w1 of
               (Inl err, w2) \<Rightarrow> (Inl err, w2)
             | (Inr res, w2) \<Rightarrow>
                 if returncode res \<noteq> 0
                 then (Inl (TaskError (failed_msg ''delete'' (name t) res)), w2)
                 else (Inr (), w2)))"

definition PythonTask_create ::
  "'w host \<Rightarrow> env \<Rightarrow> PythonTask \<Rightarrow> bool \<Rightarrow> 'w world \<Rightarrow> (error + unit) \<times> 'w world" where
  "PythonTask_create h e t overwrite w =
     (let register = (\<lambda>w0.
            case run_powershell h (build_register e t) w0 of
              (Inl err, w3) \<Rightarrow> (Inl err, w3)
            | (Inr res, w3) \<Rightarrow>
                if returncode res \<noteq> 0
                then (Inl (TaskError (failed_msg ''register'' (name t) res)), w3)
                else (Inr (), w3))
      in
      case PythonTask_exists h t w of
        (Inl err, w1) \<Rightarrow> (Inl err, w1)
      | (Inr ex, w1) \<Rightarrow>
          if ex then
            (if \<not> overwrite then
               (Inl (TaskAlreadyExistsError (''Task '' @ [sq] @ name t @ [sq] @ '' already exists'')), w1)
             else
               (case PythonTask_delete h t w1 of
                  (Inl err, w2) \<Rightarrow> (Inl err, w2)
                | (Inr u, w2) \<Rightarrow> register w2))
          else register w1)"

definition run_script :: "PythonTask \<Rightarrow> string" where
  "run_script t = ''Start-ScheduledTask -TaskName '' @ quote_ps_arg (name t)"

definition PythonTask_run ::
  "'w host \<Rightarrow> PythonTask \<Rightarrow> 'w world \<Rightarrow> (error + unit) \<times> 'w world" where
  "PythonTask_run h t w =
     (case PythonTask_exists h t w of
        (Inl err, w1) \<Rightarrow> (Inl err, w1)
      | (Inr ex, w1) \<Rightarrow>
          if \<not> ex then
            (Inl (TaskNotFoundError (''Task '' @ [sq] @ name t @ [sq] @ '' not found'')), w1)
          else
            (case run_powershell h (run_script t) w1 of
               (Inl err, w2) \<Rightarrow> (Inl err, w2)
             | (Inr res, w2) \<Rightarrow>
                 if returncode res \<noteq> 0
                 then (Inl (TaskError (failed_msg ''start'' (name t) res)), w2)
                 else (Inr (), w2)))"

definition enable_script :: "PythonTask \<Rightarrow> string" where
  "enable_script t = ''Enable-ScheduledTask -TaskName '' @ quote_ps_arg (name t)"

definition PythonTask_enable ::
  "'w host \<Rightarrow> PythonTask \<Rightarrow> 'w world \<Rightarrow> (error + unit) \<times> 'w world" where
  "PythonTask_enable h t w =
     (case run_powershell h (enable_script t) w of
        (Inl err, w1) \<Rightarrow> (Inl err, w1)
      | (Inr res, w1) \<Rightarrow>
          if returncode res \<noteq> 0 then (Inl (TaskError (failed_msg ''enable'' (name t) res)), w1)
          else (Inr (), w1))"

definition disable_script :: "PythonTask \<Rightarrow> string" where
  "disable_script t = ''Disable-ScheduledTask -TaskName '' @ quote_ps_arg (name t)"

definition PythonTask_disable ::
  "'w host \<Rightarrow> PythonTask \<Rightarrow> 'w world \<Rightarrow> (error + unit) \<times> 'w world" where
  "PythonTask_disable h t w =
     (case run_powershell h (disable_script t) w of
        (Inl err, w1) \<Rightarrow> (Inl err, w1)
      | (Inr res, w1) \<Rightarrow>
          if returncode res \<noteq> 0 then (Inl (TaskError (failed_msg ''disable'' (name t) res)), w1)
          else (Inr (), w1))"

definition stop_script :: "PythonTask \<Rightarrow> string" where
  "stop_script t =
     ''Stop-ScheduledTask -TaskName '' @ quote_ps_arg (name t) @ '' -Confirm:$false''"

definition PythonTask_stop ::
  "'w host \<Rightarrow> PythonTask \<Rightarrow> 'w world \<Rightarrow> (error + unit) \<times> 'w world" where
  "PythonTask_stop h t w =
     (case run_powershell h (stop_script t) w of
        (Inl err, w1) \<Rightarrow> (Inl err, w1)
      | (Inr res, w1) \<Rightarrow>
          if returncode res \<noteq> 0 then (Inl (TaskError (failed_msg ''stop'' (name t) res)), w1)
          else (Inr (), w1))"

text \<open>
  A host that behaves as the state machine over one named task: the task is absent
  or present, the existence query reports which and changes nothing, unregistering a
  present task removes it, registering an absent task adds it, and starting,
  enabling, disabling or stopping succeeds on a present task only. Every other
  script fails and changes nothing. This host always starts the shell.
\<close>

datatype presence = Absent | Present

definition succeeded :: completed where
  "succeeded = \<lparr>returncode = 0, stdout = [], stderr = []\<rparr>"

definition refused :: completed where
  "refused = \<lparr>returncode = 1, stdout = [], stderr = ''The system cannot find the file specified.''\<rparr>"

definition scheduler :: "env \<Rightarrow> PythonTask \<Rightarrow> presence host" where
  "scheduler e t scr p =
     (if scr = exists_script t then (Inr (if p = Present then succeeded else refused), p)
      else if scr = delete_script t then (Inr (if p = Present then succeeded else refused), Absent)
      else if scr = build_register e t then (Inr (if p = Absent then succeeded else refused), Present)
      else if scr \<in> set [run_script t, enable_script t, disable_script t, stop_script t]
      then (Inr (if p = Present then succeeded else refused), p)
      else (Inr refused, p))"

text \<open>A host on which the shell cannot be started.\<close>

definition no_shell :: "unit host" where
  "no_shell scr u = (Inl NotStarted, u)"

section \<open>Listing interpreter\<close>

text \<open>
  The values that the enumeration script writes for the state and the last result of
  a task, once parsed: a number, a string or \<open>null\<close>.
\<close>

datatype pyval = PNone | PInt int | PStr string

text \<open>
  The interpreter limits the length of decimal conversions: with a limit \<open>lim\<close> other
  than 0 (4300 unless configured, and never from 1 to 639; 0 switches the limit off),
  \<open>str(n)\<close> and \<open>int(s)\<close> raise \<open>ValueError\<close> on more than \<open>lim\<close> digits.
\<close>

function show_nat :: "nat \<Rightarrow> string" where
  "show_nat n = (if n < 10 then [digit_char n] else show_nat (n div 10) @ [digit_char n])"
  by pat_completeness auto
termination
  by (relation "measure id") auto

declare show_nat.simps [simp del]

text \<open>\<open>str(n)\<close> of an integer, and \<open>str(v)\<close> of a value.\<close>

definition str_int :: "nat \<Rightarrow> int \<Rightarrow> error + string" where
  "str_int lim i =
     (let digits = show_nat (nat \<bar>i\<bar>) in
      if lim \<noteq> 0 \<and> lim < length digits then Inl ValueError
      else Inr ((if i < 0 then ''-'' else []) @ digits))"

fun py_str :: "nat \<Rightarrow> pyval \<Rightarrow> error + string" where
  "py_str lim PNone = Inr ''None''"
| "py_str lim (PInt i) = str_int lim i"
| "py_str lim (PStr s) = Inr s"

text \<open>
  \<open>s.isdigit()\<close>: the string is not empty and each character is a digit; below 256
  these are the ten decimal digits and the superscripts two, three and one.
  \<open>int(s)\<close> of such a string reads decimal digits only; it raises \<open>ValueError\<close>
  (here \<open>None\<close>) on a superscript and on more digits than the limit allows.
\<close>

definition is_decimal :: "char \<Rightarrow> bool" where
  "is_decimal c = (c \<in> set ''0123456789'')"

definition isdigit :: "string \<Rightarrow> bool" where
  "isdigit s = (s \<noteq> [] \<and> list_all (\<lambda>c. is_decimal c \<or> c \<in> set [CHR 0xB2, CHR 0xB3, CHR 0xB9]) s)"

definition digit_val :: "char \<Rightarrow> nat" where
  "digit_val c = of_char c - 48"

definition py_int :: "nat \<Rightarrow> string \<Rightarrow> int option" where
  "py_int lim s =
     (if s \<noteq> [] \<and> list_all is_decimal s \<and> (lim = 0 \<or> length s \<le> lim)
      then Some (int (foldl (\<lambda>n c. 10 * n + digit_val c) 0 s)) else None)"

text \<open>
  The five labels. Each starts with an icon of two to five characters. Where a
  character of an icon has a code point of 256 or more, which no \<open>char\<close> stands for,
  the bytes of its UTF-8 form are written in its place: \<open>C5 B8\<close> for code point 0x178,
  \<open>E2 80 93\<close> for 0x2013 and \<open>E2 80 9C\<close> for 0x201C.
\<close>

definition label_ready :: string where
  "label_ready = [CHR 0xF0, CHR 0xC5, CHR 0xB8, CHR 0xC5, CHR 0xB8, CHR 0xA2] @ '' Ready''"

definition label_running :: string where
  "label_running = [CHR 0xE2, CHR 0xE2, CHR 0x80, CHR 0x93, CHR 0xB6, CHR 0xEF, CHR 0xB8] @ '' Running''"

definition label_disabled :: string where
  "label_disabled = [CHR 0xF0, CHR 0xC5, CHR 0xB8, CHR 0xC5, CHR 0xB8, CHR 0xA1] @ '' Disabled''"

definition label_queued :: string where
  "label_queued = [CHR 0xE2, CHR 0xB3] @ '' Queued''"

definition label_unknown :: string where
  "label_unknown = [CHR 0xE2, CHR 0xE2, CHR 0x80, CHR 0x9C] @ '' Unknown''"

definition labels :: "string list" where
  "labels = [label_ready, label_running, label_disabled, label_queued, label_unknown]"

text \<open>The table \<open>mapping\<close> of \<open>map_status\<close>, with its string keys and its integer keys.\<close>

definition mapping :: "(pyval \<times> string) list" where
  "mapping =
     [(PStr ''Ready'', label_ready),
      (PStr ''Running'', label_running),
      (PStr ''Disabled'', label_disabled),
      (PStr ''Queued'', label_queued),
      (PStr ''Unknown'', label_unknown),
      (PInt 0, label_unknown),
      (PInt 1, label_disabled),
      (PInt 2, label_queued),
      (PInt 3, label_ready),
      (PInt 4, label_running)]"

text \<open>
  \<open>map_status\<close>: a digit string is looked up as its integer, unless \<open>int\<close> refuses it;
  \<open>mapping.get(s_val, str(s))\<close> computes \<open>str(s)\<close> before it looks the key up.
\<close>

definition map_status :: "nat \<Rightarrow> pyval \<Rightarrow> error + string" where
  "map_status lim s =
     (let s_val = (case s of
                     PStr x \<Rightarrow> if isdigit x
                               then (case py_int lim x of Some n \<Rightarrow> PInt n | None \<Rightarrow> s)
                               else s
                   | _ \<Rightarrow> s)
      in case py_str lim s of
           Inl err \<Rightarrow> Inl err
         | Inr d \<Rightarrow> (case map_of mapping s_val of Some l \<Rightarrow> Inr l | None \<Rightarrow> Inr d))"

definition known :: "(int \<times> string) list" where
  "known =
     [(0, ''Succeeded''),
      (267009, ''Running''),
      (267008, ''Queued''),
      (267011, ''Not executed yet''),
      (267002, ''Disabled''),
      (267010, ''Ready''),
      (267000, ''No more runs'')]"

text \<open>
  \<open>map_result\<close>: \<open>code_int\<close> is the integer of a digit string or the integer itself;
  every other value, and a digit string that \<open>int\<close> refuses, is returned as \<open>str(code)\<close>.
  \<open>known.get(code_int, f"Code {code_int}")\<close> computes the text of the code before it
  looks the key up.
\<close>

definition map_result :: "nat \<Rightarrow> pyval \<Rightarrow> error + string" where
  "map_result lim code =
     (let code_int = (case code of
                        PStr x \<Rightarrow> if isdigit x then py_int lim x else None
                      | PInt n \<Rightarrow> Some n
                      | PNone \<Rightarrow> None)
      in case code_int of
           None \<Rightarrow> py_str lim code
         | Some n \<Rightarrow>
             (case str_int lim n of
                Inl err \<Rightarrow> Inl err
              | Inr d \<Rightarrow> (case map_of known n of Some l \<Rightarrow> Inr l | None \<Rightarrow> Inr (''Code '' @ d))))"

text \<open>\<open>s.lower()\<close> on code points below 256: each capital letter has one small letter.\<close>

definition upper_chars :: string where
  "upper_chars = ''ABCDEFGHIJKLMNOPQRSTUVWXYZ'' @
       [CHR 0xC0, CHR 0xC1, CHR 0xC2, CHR 0xC3, CHR 0xC4, CHR 0xC5, CHR 0xC6, CHR 0xC7,
        CHR 0xC8, CHR 0xC9, CHR 0xCA, CHR 0xCB, CHR 0xCC, CHR 0xCD, CHR 0xCE, CHR 0xCF,
        CHR 0xD0, CHR 0xD1, CHR 0xD2, CHR 0xD3, CHR 0xD4, CHR 0xD5, CHR 0xD6, CHR 0xD8,
        CHR 0xD9, CHR 0xDA, CHR 0xDB, CHR 0xDC, CHR 0xDD, CHR 0xDE]"

definition lower_chars :: string where
  "lower_chars = ''abcdefghijklmnopqrstuvwxyz'' @
       [CHR 0xE0, CHR 0xE1, CHR 0xE2, CHR 0xE3, CHR 0xE4, CHR 0xE5, CHR 0xE6, CHR 0xE7,
        CHR 0xE8, CHR 0xE9, CHR 0xEA, CHR 0xEB, CHR 0xEC, CHR 0xED, CHR 0xEE, CHR 0xEF,
        CHR 0xF0, CHR 0xF1, CHR 0xF2, CHR 0xF3, CHR 0xF4, CHR 0xF5, CHR 0xF6, CHR 0xF8,
        CHR 0xF9, CHR 0xFA, CHR 0xFB, CHR 0xFC, CHR 0xFD, CHR 0xFE]"

definition lower_char :: "char \<Rightarrow> char" where
  "lower_char c = (case map_of (zip upper_chars lower_chars) c of Some l \<Rightarrow> l | None \<Rightarrow> c)"

definition lower :: "string \<Rightarrow> string" where
  "lower s = map lower_char s"

record action =
  Command :: "string option"
  Arguments :: "string option"
  WorkingDirectory :: "string option"

record item =
  Name :: "string option"
  Status :: pyval
  NextRunTime :: "string option"
  LastRunTime :: "string option"
  LastRunResult :: pyval
  Author :: "string option"
  Created :: "string option"
  Description :: "string option"
  Triggers :: "string option"
  Actions :: "action option list option"

text \<open>
  \<open>x.endswith(p)\<close> is \<open>suffix p x\<close> and \<open>p in x\<close> is \<open>sublist p x\<close>;
  \<open>(act or {}).get(k) or ""\<close> is the empty string for a missing action or field.
\<close>

definition is_python_action :: "action option \<Rightarrow> bool" where
  "is_python_action act =
     (let cmd = lower (case act of None \<Rightarrow> [] | Some a \<Rightarrow> opt_str (Command a));
          args' = lower (case act of None \<Rightarrow> [] | Some a \<Rightarrow> opt_str (Arguments a))
      in suffix ''python.exe'' cmd
         \<or> sublist ([bsl] @ ''python'') cmd
         \<or> sublist ''/python'' cmd
         \<or> suffix ''.py'' args'
         \<or> sublist ''.py '' args')"

definition passes_filters :: "string option \<Rightarrow> string option \<Rightarrow> bool \<Rightarrow> item \<Rightarrow> bool" where
  "passes_filters author name_contains only_python it =
     (if truthy author \<and> lower (opt_str (Author it)) \<noteq> lower (opt_str author) then False
      else if truthy name_contains
              \<and> \<not> sublist (lower (opt_str name_contains)) (lower (opt_str (Name it))) then False
      else if only_python then
        (let acts = (case Actions it of None \<Rightarrow> [] | Some xs \<Rightarrow> xs)
         in if \<not> list_ex is_python_action acts then False else True)
      else True)"

text \<open>
  The end of \<open>list_tasks\<close>, from the parsed records on: the state and the last result
  of every record are normalised in order, then the records are filtered.
\<close>

definition normalise :: "nat \<Rightarrow> item \<Rightarrow> error + item" where
  "normalise lim it =
     (case map_status lim (Status it) of
        Inl err \<Rightarrow> Inl err
      | Inr st \<Rightarrow>
          (case map_result lim (LastRunResult it) of
             Inl err \<Rightarrow> Inl err
           | Inr r \<Rightarrow> Inr (it\<lparr>Status := PStr st, LastRunResult := PStr r\<rparr>)))"

fun normalise_all :: "nat \<Rightarrow> item list \<Rightarrow> error + item list" where
  "normalise_all lim [] = Inr []"
| "normalise_all lim (it # its) =
     (case normalise lim it of
        Inl err \<Rightarrow> Inl err
      | Inr it' \<Rightarrow>
          (case normalise_all lim its of
             Inl err \<Rightarrow> Inl err
           | Inr its' \<Rightarrow> Inr (it' # its')))"

definition list_tasks ::
  "nat \<Rightarrow> string option \<Rightarrow> string option \<Rightarrow> bool \<Rightarrow> item list \<Rightarrow> error + item list" where
  "list_tasks lim author name_contains only_python data =
     (case normalise_all lim data of
        Inl err \<Rightarrow> Inl err
      | Inr data' \<Rightarrow> Inr (filter (passes_filters author name_contains only_python) data'))"

text \<open>
  Two readings used to state the normalisation: the integer that a value denotes for
  the program (an integer itself, or a digit string that \<open>int\<close> accepts), and the
  status values that the table covers (the numbers 0 to 4 and the five state names).
\<close>

definition numeric_value :: "nat \<Rightarrow> pyval \<Rightarrow> int option" where
  "numeric_value lim v =
     (case v of PInt n \<Rightarrow> Some n | PStr s \<Rightarrow> if isdigit s then py_int lim s else None | PNone \<Rightarrow> None)"

definition recognised_status :: "nat \<Rightarrow> pyval \<Rightarrow> bool" where
  "recognised_status lim v =
     (case numeric_value lim v of
        Some n \<Rightarrow> 0 \<le> n \<and> n \<le> 4
      | None \<Rightarrow> v \<in> set (map PStr [''Ready'', ''Running'', ''Disabled'', ''Queued'', ''Unknown'']))"

section \<open>Example inputs\<close>

definition demo_env :: env where
  "demo_env = \<lparr>resolve = (\<lambda>p. ''C:'' @ [bsl] @ p), today = Date 2024 5 17, weekday_name = ''Friday''\<rparr>"

definition demo_task :: PythonTask where
  "demo_task = \<lparr>name = ''nightly-backup'', script = ''backup.py'', python = ''python.exe'',
     args = None, frequency = ''Daily'', at = AtTime 2 30, on = OnNone,
     description = ''Scheduled Python script'', user = None, password = None\<rparr>"

definition python_item :: item where
  "python_item = \<lparr>Name = Some ''job'', Status = PInt 3, NextRunTime = None, LastRunTime = None,
     LastRunResult = PInt 0, Author = None, Created = None, Description = None, Triggers = None,
     Actions = Some [Some \<lparr>Command = Some (''C:'' @ [bsl] @ ''Python'' @ [bsl] @ ''python.exe''),
                           Arguments = Some ''job.py --x 1'', WorkingDirectory = None\<rparr>]\<rparr>"

definition other_item :: item where
  "other_item = \<lparr>Name = Some ''tool'', Status = PInt 3, NextRunTime = None, LastRunTime = None,
     LastRunResult = PInt 0, Author = None, Created = None, Description = None, Triggers = None,
     Actions = Some [Some \<lparr>Command = Some (''C:'' @ [bsl] @ ''Tools'' @ [bsl] @ ''run.exe''),
                           Arguments = Some ''run.exe'', WorkingDirectory = None\<rparr>]\<rparr>"

definition upper_item :: item where
  "upper_item = \<lparr>Name = Some ''loud'', Status = PStr ''3'', NextRunTime = None, LastRunTime = None,
     LastRunResult = PStr ''267011'', Author = None, Created = None, Description = None, Triggers = None,
     Actions = Some [Some \<lparr>Command = Some (''C:'' @ [bsl] @ ''PY'' @ [bsl] @ ''PYTHON.EXE''),
                           Arguments = Some ''RUN.PY'', WorkingDirectory = None\<rparr>]\<rparr>"

definition quoted_item :: item where
  "quoted_item = \<lparr>Name = Some ''quoted'', Status = PInt 3, NextRunTime = None, LastRunTime = None,
     LastRunResult = PInt 0, Author = None, Created = None, Description = None, Triggers = None,
     Actions = Some [Some \<lparr>Command = Some (''C:'' @ [bsl] @ ''Tools'' @ [bsl] @ ''py.exe''),
                           Arguments = Some ([dq] @ ''C:'' @ [bsl] @ ''jobs'' @ [bsl] @ ''job.py'' @ [dq]),
                           WorkingDirectory = None\<rparr>]\<rparr>"

section \<open>Properties of the quoting rule\<close>

lemma collapse_doubled_Cons_other:
  "x \<noteq> dq \<Longrightarrow> collapse_doubled (x # zs) = x # collapse_doubled zs"
  by (cases zs) simp_all

lemma collapse_doubled_replace:
  "collapse_doubled (replace_char dq [dq, dq] s) = s"
  by (induction s) (simp_all add: collapse_doubled_Cons_other)

lemma unquote_spec_quote: "unquote_spec (quote_ps_arg s) = Some s"
  by (simp add: unquote_spec_def quote_ps_arg_def butlast_append collapse_doubled_replace)

text \<open>
  C5. Quoting a string and then undoing the quoting (strip the outer quotes, collapse
  each doubled quote) gives the string back, whatever characters it holds; so two
  strings with the same quoted form are the same string.
\<close>

theorem quote_round_trip:
  "unquote_spec (quote_ps_arg s) = Some s \<and> (quote_ps_arg s = quote_ps_arg t \<longleftrightarrow> s = t)"
proof -
  have "s = t" if "quote_ps_arg s = quote_ps_arg t"
  proof -
    from that have "unquote_spec (quote_ps_arg s) = unquote_spec (quote_ps_arg t)"
      by simp
    then show ?thesis
      by (simp add: unquote_spec_quote)
  qed
  then show ?thesis
    by (auto simp: unquote_spec_quote)
qed

theorem quote_round_trip_witness:
  "quote_ps_arg [CHR ''a'', dq, CHR '' '', CHR '';'', dq, dq, CHR ''b'']
     = [dq, CHR ''a'', dq, dq, CHR '' '', CHR '';'', dq, dq, dq, dq, CHR ''b'', dq]
   \<and> unquote_spec [dq, CHR ''a'', dq, dq, CHR '' '', CHR '';'', dq, dq, dq, dq, CHR ''b'', dq]
     = Some [CHR ''a'', dq, CHR '' '', CHR '';'', dq, dq, CHR ''b'']"
proof -
  have q: "quote_ps_arg [CHR ''a'', dq, CHR '' '', CHR '';'', dq, dq, CHR ''b'']
     = [dq, CHR ''a'', dq, dq, CHR '' '', CHR '';'', dq, dq, dq, dq, CHR ''b'', dq]"
    by (simp add: quote_ps_arg_def dq_def)
  show ?thesis
    using quote_round_trip [of "[CHR ''a'', dq, CHR '' '', CHR '';'', dq, dq, CHR ''b'']"
        "[CHR ''a'', dq, CHR '' '', CHR '';'', dq, dq, CHR ''b'']"]
    by (simp add: q)
qed

section \<open>Properties of the command builder\<close>

text \<open>
  C1. Every string interpolated into a generated command is wrapped in double quotes
  with the inner double quotes doubled, the trigger fragment included. The program
  does not do this in the weekly and daily triggers: the day list and the time go into
  the text as they are. With the day name \<open>Monday; Write-Host injected\<close> the weekly
  trigger holds no double quote at all and a second command after the semicolon, while
  the trigger of frequency \<open>Once\<close> does quote its date and time.
\<close>

theorem trigger_unquoted:
  "build_trigger demo_env
     (demo_task\<lparr>frequency := ''Weekly'', on := OnDays [''Monday; Write-Host injected'']\<rparr>)
     = ''$trigger = New-ScheduledTaskTrigger -Weekly -DaysOfWeek Monday; Write-Host injected -At 02:30''
   \<and> dq \<notin> set (build_trigger demo_env
     (demo_task\<lparr>frequency := ''Weekly'', on := OnDays [''Monday; Write-Host injected'']\<rparr>))
   \<and> build_trigger demo_env (demo_task\<lparr>frequency := ''Once''\<rparr>)
     = ''$trigger = New-ScheduledTaskTrigger -Once -At (Get-Date '' @ [dq] @ ''2024-05-17 02:30'' @ [dq] @ '')''"
  by (simp add: build_trigger_def demo_task_def demo_env_def quote_ps_arg_def pad2_def pad4_def
      digit_char_def dq_def)

text \<open>
  C2. A frequency other than \<open>Once\<close>, \<open>Daily\<close> and \<open>Weekly\<close> makes the trigger
  builder fail. The program does not fail: with the frequency \<open>Hourly\<close> it returns the
  daily trigger.
\<close>

theorem unrecognised_frequency_counterexample:
  "''Hourly'' \<notin> set [''Once'', ''Daily'', ''Weekly'']
   \<and> build_trigger demo_env (demo_task\<lparr>frequency := ''Hourly''\<rparr>)
       = ''$trigger = New-ScheduledTaskTrigger -Daily -At 02:30''"
  by (simp add: build_trigger_def demo_task_def demo_env_def pad2_def digit_char_def)

text \<open>
  C2, as the program has it. For a frequency other than \<open>Once\<close>, \<open>Daily\<close> and
  \<open>Weekly\<close> the trigger builder returns the daily trigger at the given time, the same
  text as for the frequency \<open>Daily\<close>.
\<close>

theorem unrecognised_frequency_daily:
  "frequency t \<notin> set [''Once'', ''Daily'', ''Weekly'']
   \<Longrightarrow> build_trigger e t = ''$trigger = New-ScheduledTaskTrigger -Daily -At '' @ at_str (at t)
       \<and> build_trigger e t = build_trigger e (t\<lparr>frequency := ''Daily''\<rparr>)"
  by (simp add: build_trigger_def)

theorem unrecognised_frequency_daily_witness:
  "''Hourly'' \<notin> set [''Once'', ''Daily'', ''Weekly'']
   \<and> build_trigger demo_env (demo_task\<lparr>frequency := ''Hourly''\<rparr>)
       = build_trigger demo_env (demo_task\<lparr>frequency := ''Daily''\<rparr>)"
proof -
  have h: "frequency (demo_task\<lparr>frequency := ''Hourly''\<rparr>) \<notin> set [''Once'', ''Daily'', ''Weekly'']"
    by simp
  show ?thesis
    using unrecognised_frequency_daily [OF h, of demo_env] by (simp add: build_trigger_def)
qed

text \<open>
  C6. With frequency \<open>Once\<close> and no date in \<open>on\<close>, the trigger uses the date of today
  with the time \<open>at\<close>; with frequency \<open>Weekly\<close> and \<open>on\<close> absent or empty, it uses
  the name of the current weekday; with frequency \<open>Daily\<close>, neither \<open>on\<close> nor the
  clock has any influence on the text.
\<close>

theorem trigger_branches:
  "(frequency t = ''Once'' \<and> (\<forall>d. on t \<noteq> OnDate d) \<longrightarrow>
      build_trigger e t = ''$trigger = New-ScheduledTaskTrigger -Once -At (Get-Date ''
        @ quote_ps_arg (strftime_Ymd (today e) @ '' '' @ at_str (at t)) @ '')'')
   \<and> (frequency t = ''Weekly'' \<and> (on t = OnNone \<or> on t = OnDays []) \<longrightarrow>
      build_trigger e t = ''$trigger = New-ScheduledTaskTrigger -Weekly -DaysOfWeek ''
        @ weekday_name e @ '' -At '' @ at_str (at t))
   \<and> (frequency t = ''Daily'' \<longrightarrow>
      build_trigger e' (t\<lparr>on := x\<rparr>) = ''$trigger = New-ScheduledTaskTrigger -Daily -At '' @ at_str (at t))"
  by (auto simp: build_trigger_def split: on_value.splits)

theorem trigger_branches_witness:
  "build_trigger demo_env (demo_task\<lparr>frequency := ''Once''\<rparr>)
     = ''$trigger = New-ScheduledTaskTrigger -Once -At (Get-Date '' @ [dq] @ ''2024-05-17 02:30'' @ [dq] @ '')''
   \<and> build_trigger demo_env (demo_task\<lparr>frequency := ''Weekly'', on := OnDays []\<rparr>)
     = ''$trigger = New-ScheduledTaskTrigger -Weekly -DaysOfWeek Friday -At 02:30''
   \<and> build_trigger demo_env (demo_task\<lparr>on := OnDays [''Monday'']\<rparr>)
     = ''$trigger = New-ScheduledTaskTrigger -Daily -At 02:30''"
  using trigger_branches [of "demo_task\<lparr>frequency := ''Once''\<rparr>" demo_env demo_env OnNone]
    trigger_branches [of "demo_task\<lparr>frequency := ''Weekly'', on := OnDays []\<rparr>" demo_env demo_env OnNone]
    trigger_branches [of demo_task demo_env demo_env "OnDays [''Monday'']"]
  by (simp add: demo_task_def demo_env_def quote_ps_arg_def pad2_def pad4_def digit_char_def dq_def)

lemma register_base_credentials:
  "register_base e (t\<lparr>user := u', password := p'\<rparr>) = register_base e t"
  by (simp add: register_base_def build_action_def build_trigger_def Let_def)

text \<open>
  C8. The registration fragment has three forms. A user and a password that are both
  given (present and not empty) appear both, quoted; a user without a password appears
  alone, quoted; without a user there are no credentials at all, whatever the password
  is. The text before the registration command does not depend on the credentials.
\<close>

theorem register_credentials:
  "(user t = Some u \<and> u \<noteq> [] \<and> password t = Some p \<and> p \<noteq> [] \<longrightarrow>
      build_register e t = register_base e t
        @ ''Register-ScheduledTask -TaskName $taskName -Description $description -Action $action -Trigger $trigger''
        @ '' -User '' @ quote_ps_arg u @ '' -Password '' @ quote_ps_arg p @ '' | Out-Null'')
   \<and> (user t = Some u \<and> u \<noteq> [] \<and> \<not> truthy (password t) \<longrightarrow>
      build_register e t = register_base e t
        @ ''Register-ScheduledTask -TaskName $taskName -Description $description -Action $action -Trigger $trigger''
        @ '' -User '' @ quote_ps_arg u @ '' | Out-Null'')
   \<and> (\<not> truthy (user t) \<longrightarrow>
      build_register e t = register_base e t
        @ ''Register-ScheduledTask -TaskName $taskName -Description $description -Action $action -Trigger $trigger''
        @ '' | Out-Null'')
   \<and> register_base e (t\<lparr>user := u', password := p'\<rparr>) = register_base e t"
  by (simp add: build_register_def register_base_credentials)

theorem register_credentials_witness:
  "build_register demo_env (demo_task\<lparr>user := Some ''svc'', password := Some ''p w''\<rparr>)
     = register_base demo_env demo_task
       @ ''Register-ScheduledTask -TaskName $taskName -Description $description -Action $action -Trigger $trigger''
       @ '' -User '' @ [dq] @ ''svc'' @ [dq] @ '' -Password '' @ [dq] @ ''p w'' @ [dq] @ '' | Out-Null''
   \<and> build_register demo_env (demo_task\<lparr>user := Some ''svc'', password := Some []\<rparr>)
     = register_base demo_env demo_task
       @ ''Register-ScheduledTask -TaskName $taskName -Description $description -Action $action -Trigger $trigger''
       @ '' -User '' @ [dq] @ ''svc'' @ [dq] @ '' | Out-Null''
   \<and> build_register demo_env (demo_task\<lparr>user := None, password := Some ''p w''\<rparr>)
     = register_base demo_env demo_task
       @ ''Register-ScheduledTask -TaskName $taskName -Description $description -Action $action -Trigger $trigger''
       @ '' | Out-Null''"
  using register_credentials [of "demo_task\<lparr>user := Some ''svc'', password := Some ''p w''\<rparr>" "''svc''" "''p w''" demo_env "Some ''svc''" "Some ''p w''"]
    register_credentials [of "demo_task\<lparr>user := Some ''svc'', password := Some []\<rparr>" "''svc''" "''p w''" demo_env "Some ''svc''" "Some []"]
    register_credentials [of "demo_task\<lparr>user := None, password := Some ''p w''\<rparr>" "''svc''" "''p w''" demo_env None "Some ''p w''"]
    register_credentials [of demo_task "''svc''" "''p w''" demo_env]
  by (simp add: quote_ps_arg_def dq_def)

section \<open>Properties of the operations\<close>

lemma set_replace_char_dq: "set (replace_char dq [dq, dq] s) = set s"
  by (induction s) auto

lemma set_quote_ps_arg: "set (quote_ps_arg s) = insert dq (set s)"
  by (auto simp: quote_ps_arg_def set_replace_char_dq)

lemma nul_exists_script: "CHR 0x00 \<in> set (exists_script t) \<longleftrightarrow> CHR 0x00 \<in> set (name t)"
  by (simp add: exists_script_def set_quote_ps_arg dq_def sq_def)






lemma enable_never_not_found:
  "fst (PythonTask_enable h t w) \<noteq> Inl (TaskNotFoundError m)
   \<and> (issued (snd (PythonTask_enable h t w)) = issued w
        \<or> issued (snd (PythonTask_enable h t w)) = issued w @ [enable_script t])"
  by (cases "h (enable_script t) (host_state w)")
    (auto simp: PythonTask_enable_def run_powershell_def Let_def split: sum.splits failure.splits)

lemma disable_never_not_found:
  "fst (PythonTask_disable h t w) \<noteq> Inl (TaskNotFoundError m)
   \<and> (issued (snd (PythonTask_disable h t w)) = issued w
        \<or> issued (snd (PythonTask_disable h t w)) = issued w @ [disable_script t])"
  by (cases "h (disable_script t) (host_state w)")
    (auto simp: PythonTask_disable_def run_powershell_def Let_def split: sum.splits failure.splits)

lemma stop_never_not_found:
  "fst (PythonTask_stop h t w) \<noteq> Inl (TaskNotFoundError m)
   \<and> (issued (snd (PythonTask_stop h t w)) = issued w
        \<or> issued (snd (PythonTask_stop h t w)) = issued w @ [stop_script t])"
  by (cases "h (stop_script t) (host_state w)")
    (auto simp: PythonTask_stop_def run_powershell_def Let_def split: sum.splits failure.splits)

lemma run_absent:
  "fst (PythonTask_exists h t w) = Inr False \<Longrightarrow>
   PythonTask_run h t w
     = (Inl (TaskNotFoundError (''Task '' @ [sq] @ name t @ [sq] @ '' not found'')),
        snd (PythonTask_exists h t w))"
  by (auto simp: PythonTask_run_def split: prod.splits sum.splits)

lemma create_without_overwrite:
  "fst (PythonTask_exists h t w) = Inr True \<Longrightarrow>
   PythonTask_create h e t False w
     = (Inl (TaskAlreadyExistsError (''Task '' @ [sq] @ name t @ [sq] @ '' already exists'')),
        snd (PythonTask_exists h t w))"
  by (auto simp: PythonTask_create_def split: prod.splits sum.splits)

lemma create_with_overwrite:
  assumes "PythonTask_exists h t w = (Inr True, w1)"
    and "PythonTask_exists h t w1 = (Inr True, w2)"
    and "run_powershell h (delete_script t) w2 = (Inr r2, w3)" and "returncode r2 = 0"
    and "run_powershell h (build_register e t) w3 = (Inr r3, w4)" and "returncode r3 = 0"
  shows "PythonTask_create h e t True w = (Inr (), w4)"
proof -
  have d: "PythonTask_delete h t w1 = (Inr (), w3)"
    using assms(2-4) by (simp add: PythonTask_delete_def)
  show ?thesis
    using assms(1,5,6) d by (simp add: PythonTask_create_def)
qed

text \<open>
  C10. \<open>exists\<close> is total and never raises: for every task name and every outcome of
  the existence query it returns a truth value. The program does raise: a task name
  that holds the character NUL makes \<open>subprocess.run\<close> refuse the script with
  \<open>ValueError\<close> before anything is started, and a shell that cannot be started raises
  \<open>OSError\<close>; \<open>exists\<close> catches neither.
\<close>

theorem exists_raises_counterexample:
  "PythonTask_exists (scheduler demo_env (demo_task\<lparr>name := ''a'' @ [CHR 0x00]\<rparr>))
      (demo_task\<lparr>name := ''a'' @ [CHR 0x00]\<rparr>) \<lparr>host_state = Present, issued = []\<rparr>
     = (Inl ValueError, \<lparr>host_state = Present, issued = []\<rparr>)
   \<and> PythonTask_exists no_shell demo_task \<lparr>host_state = (), issued = []\<rparr>
     = (Inl OSError, \<lparr>host_state = (), issued = [exists_script demo_task]\<rparr>)"
  by (simp add: PythonTask_exists_def run_powershell_def nul_exists_script no_shell_def demo_task_def)

text \<open>
  C10, as the program has it. For a task name without NUL and an existence query that
  completes, \<open>exists\<close> returns a truth value, true exactly when the exit code is 0, so
  that every failing query reads as an absent task; it hands one script to the host.
  A name with NUL raises \<open>ValueError\<close> and hands nothing over; a query that the host
  cannot start, or whose output cannot be decoded, raises the error of the host.
\<close>

theorem exists_result:
  "(CHR 0x00 \<in> set (name t) \<longrightarrow> PythonTask_exists h t w = (Inl ValueError, w))
   \<and> (CHR 0x00 \<notin> set (name t) \<and> h (exists_script t) (host_state w) = (Inl f, s) \<longrightarrow>
        PythonTask_exists h t w
          = (Inl (case f of NotStarted \<Rightarrow> OSError | Undecodable \<Rightarrow> UnicodeDecodeError),
             \<lparr>host_state = s, issued = issued w @ [exists_script t]\<rparr>))
   \<and> (CHR 0x00 \<notin> set (name t) \<and> h (exists_script t) (host_state w) = (Inr res, s) \<longrightarrow>
        PythonTask_exists h t w
          = (Inr (returncode res = 0), \<lparr>host_state = s, issued = issued w @ [exists_script t]\<rparr>))"
  by (simp add: PythonTask_exists_def run_powershell_def nul_exists_script split: failure.splits)

theorem exists_result_witness:
  "PythonTask_exists (scheduler demo_env demo_task) demo_task \<lparr>host_state = Absent, issued = []\<rparr>
     = (Inr False, \<lparr>host_state = Absent, issued = [exists_script demo_task]\<rparr>)
   \<and> PythonTask_exists (scheduler demo_env demo_task) demo_task \<lparr>host_state = Present, issued = []\<rparr>
     = (Inr True, \<lparr>host_state = Present, issued = [exists_script demo_task]\<rparr>)
   \<and> PythonTask_exists no_shell demo_task \<lparr>host_state = (), issued = []\<rparr>
     = (Inl OSError, \<lparr>host_state = (), issued = [exists_script demo_task]\<rparr>)
   \<and> PythonTask_exists no_shell (demo_task\<lparr>name := [CHR 0x00]\<rparr>) \<lparr>host_state = (), issued = []\<rparr>
     = (Inl ValueError, \<lparr>host_state = (), issued = []\<rparr>)"
proof -
  have n: "CHR 0x00 \<notin> set (name demo_task)"
    by (simp add: demo_task_def)
  have a: "scheduler demo_env demo_task (exists_script demo_task) Absent = (Inr refused, Absent)"
    and p: "scheduler demo_env demo_task (exists_script demo_task) Present = (Inr succeeded, Present)"
    by (simp_all add: scheduler_def)
  have o: "no_shell (exists_script demo_task) () = (Inl NotStarted, ())"
    by (simp add: no_shell_def)
  show ?thesis
    using exists_result [of demo_task "scheduler demo_env demo_task" "\<lparr>host_state = Absent, issued = []\<rparr>" NotStarted Absent refused]
      exists_result [of demo_task "scheduler demo_env demo_task" "\<lparr>host_state = Present, issued = []\<rparr>" NotStarted Present succeeded]
      exists_result [of demo_task no_shell "\<lparr>host_state = (), issued = []\<rparr>" NotStarted "()" refused]
      exists_result [of "demo_task\<lparr>name := [CHR 0x00]\<rparr>" no_shell "\<lparr>host_state = (), issued = []\<rparr>" NotStarted "()" refused]
    by (simp add: n a p o succeeded_def refused_def)
qed




text \<open>
  C3. Each of \<open>run\<close>, \<open>enable\<close>, \<open>disable\<close> and \<open>stop\<close> asks for existence first and
  raises \<open>TaskNotFoundError\<close> on an absent task. \<open>run\<close> does; the other three hand
  their command to the host without the query and raise \<open>TaskError\<close> when it fails.
\<close>

theorem enable_disable_stop_absent:
  "PythonTask_enable (scheduler demo_env demo_task) demo_task \<lparr>host_state = Absent, issued = []\<rparr>
     = (Inl (TaskError (''Failed to enable task '' @ [sq] @ ''nightly-backup'' @ [sq] @ '':'' @ [nl]
              @ ''The system cannot find the file specified.'' @ [nl])),
        \<lparr>host_state = Absent, issued = [''Enable-ScheduledTask -TaskName '' @ [dq] @ ''nightly-backup'' @ [dq]]\<rparr>)
   \<and> PythonTask_disable (scheduler demo_env demo_task) demo_task \<lparr>host_state = Absent, issued = []\<rparr>
     = (Inl (TaskError (''Failed to disable task '' @ [sq] @ ''nightly-backup'' @ [sq] @ '':'' @ [nl]
              @ ''The system cannot find the file specified.'' @ [nl])),
        \<lparr>host_state = Absent, issued = [''Disable-ScheduledTask -TaskName '' @ [dq] @ ''nightly-backup'' @ [dq]]\<rparr>)
   \<and> PythonTask_stop (scheduler demo_env demo_task) demo_task \<lparr>host_state = Absent, issued = []\<rparr>
     = (Inl (TaskError (''Failed to stop task '' @ [sq] @ ''nightly-backup'' @ [sq] @ '':'' @ [nl]
              @ ''The system cannot find the file specified.'' @ [nl])),
        \<lparr>host_state = Absent, issued = [''Stop-ScheduledTask -TaskName '' @ [dq] @ ''nightly-backup'' @ [dq] @ '' -Confirm:$false'']\<rparr>)
   \<and> PythonTask_run (scheduler demo_env demo_task) demo_task \<lparr>host_state = Absent, issued = []\<rparr>
     = (Inl (TaskNotFoundError (''Task '' @ [sq] @ ''nightly-backup'' @ [sq] @ '' not found'')),
        \<lparr>host_state = Absent, issued = [exists_script demo_task]\<rparr>)"
  by (simp add: PythonTask_enable_def PythonTask_disable_def PythonTask_stop_def PythonTask_run_def
      PythonTask_exists_def run_powershell_def scheduler_def refused_def failed_msg_def strip_def isspace_def
      enable_script_def disable_script_def stop_script_def run_script_def exists_script_def delete_script_def
      build_register_def register_base_def quote_ps_arg_def demo_task_def dq_def sq_def nl_def)

section \<open>Properties of the listing interpreter\<close>

lemma below_ten:
  "(k::nat) < 10 \<Longrightarrow> k = 0 \<or> k = 1 \<or> k = 2 \<or> k = 3 \<or> k = 4 \<or> k = 5 \<or> k = 6 \<or> k = 7 \<or> k = 8 \<or> k = 9"
  by arith

lemma digit_val_digit_char: "digit_val (digit_char d) = d mod 10"
proof -
  have "d mod 10 < 10" by simp
  from below_ten [OF this] show ?thesis
    by (auto simp: digit_val_def digit_char_def)
qed

lemma is_decimal_digit_char: "is_decimal (digit_char d)"
proof -
  have "d mod 10 < 10" by simp
  from below_ten [OF this] show ?thesis
    by (auto simp: is_decimal_def digit_char_def)
qed

lemma digit_val_below_ten: "is_decimal c \<Longrightarrow> digit_val c < 10"
  by (auto simp: is_decimal_def digit_val_def)

lemma show_nat_decimal: "show_nat n \<noteq> [] \<and> list_all is_decimal (show_nat n)"
proof (induction n rule: show_nat.induct)
  case (1 n)
  then show ?case
    by (subst show_nat.simps, subst (2) show_nat.simps) (auto simp: is_decimal_digit_char)
qed

lemma show_nat_value: "foldl (\<lambda>n c. 10 * n + digit_val c) 0 (show_nat n) = n"
proof (induction n rule: show_nat.induct)
  case (1 n)
  show ?case
  proof (cases "n < 10")
    case True
    then show ?thesis
      by (subst show_nat.simps) (simp add: digit_val_digit_char)
  next
    case False
    with 1 show ?thesis
      by (subst show_nat.simps) (simp add: digit_val_digit_char)
  qed
qed

lemma show_nat_length: "0 < k \<Longrightarrow> n < 10 ^ k \<Longrightarrow> length (show_nat n) \<le> k"
proof (induction n arbitrary: k rule: show_nat.induct)
  case (1 n)
  show ?case
  proof (cases "n < 10")
    case True
    with 1(2) show ?thesis
      by (subst show_nat.simps) simp
  next
    case False
    have "k \<noteq> 1"
      using False 1(3) by auto
    with 1(2) obtain j where j: "k = Suc j" "0 < j"
      by (cases k) auto
    from 1(3) j have "n div 10 < 10 ^ j"
      by (simp add: less_mult_imp_div_less mult.commute)
    with 1(1) [OF False j(2)] have "length (show_nat (n div 10)) \<le> j" .
    with False j show ?thesis
      by (subst show_nat.simps) simp
  qed
qed

lemma decimal_value_bound:
  "list_all is_decimal s \<Longrightarrow> a < 10 ^ m \<Longrightarrow>
   foldl (\<lambda>n c. 10 * n + digit_val c) a s < 10 ^ (m + length s)"
proof (induction s arbitrary: a m)
  case Nil
  then show ?case by simp
next
  case (Cons c s)
  from Cons.prems have d: "digit_val c < 10" and r: "list_all is_decimal s"
    by (simp_all add: digit_val_below_ten)
  from Cons.prems(2) have "Suc a \<le> 10 ^ m" by simp
  then have "10 * Suc a \<le> 10 * 10 ^ m" by (rule mult_le_mono2)
  with d have "10 * a + digit_val c < 10 ^ Suc m" by simp
  from Cons.IH [OF r this] show ?case by simp
qed

lemma py_int_show_nat:
  "lim = 0 \<or> length (show_nat n) \<le> lim \<Longrightarrow> py_int lim (show_nat n) = Some (int n)"
  by (auto simp: py_int_def show_nat_decimal show_nat_value)

lemma str_int_nonneg: "0 \<le> k \<Longrightarrow> str_int lim k = Inr d \<Longrightarrow> d = show_nat (nat k) \<and> (lim = 0 \<or> length d \<le> lim)"
  by (auto simp: str_int_def Let_def split: if_splits)

lemma str_int_round_trip: "0 \<le> k \<Longrightarrow> str_int lim k = Inr d \<Longrightarrow> py_int lim d = Some k"
  using str_int_nonneg [of k lim d] py_int_show_nat [of lim "nat k"] by auto

lemma str_int_of_py_int: "py_int lim s = Some k \<Longrightarrow> \<exists>d. str_int lim k = Inr d"
proof -
  assume a: "py_int lim s = Some k"
  then have s: "s \<noteq> []" "list_all is_decimal s" "lim = 0 \<or> length s \<le> lim"
    and k: "k = int (foldl (\<lambda>n c. 10 * n + digit_val c) 0 s)"
    by (auto simp: py_int_def split: if_splits)
  have "foldl (\<lambda>n c. 10 * n + digit_val c) 0 s < 10 ^ (0 + length s)"
    by (rule decimal_value_bound [OF s(2)]) simp
  with s(1) have "length (show_nat (foldl (\<lambda>n c. 10 * n + digit_val c) 0 s)) \<le> length s"
    by (intro show_nat_length) simp_all
  with s(3) k show ?thesis
    by (auto simp: str_int_def Let_def)
qed

lemma str_int_small:
  assumes "0 \<le> n" and "n \<le> 9"
  shows "str_int lim n = Inr [digit_char (nat n)]"
proof -
  have "show_nat (nat \<bar>n\<bar>) = [digit_char (nat n)]"
    using assms by (subst show_nat.simps) simp
  then show ?thesis
    using assms by (auto simp: str_int_def Let_def)
qed

lemma map_of_mapping_int:
  "map_of mapping (PInt n) =
     (if n = 0 then Some label_unknown else if n = 1 then Some label_disabled
      else if n = 2 then Some label_queued else if n = 3 then Some label_ready
      else if n = 4 then Some label_running else None)"
  by (simp add: mapping_def)

lemma map_of_mapping_str:
  "map_of mapping (PStr s) =
     (if s = ''Ready'' then Some label_ready else if s = ''Running'' then Some label_running
      else if s = ''Disabled'' then Some label_disabled else if s = ''Queued'' then Some label_queued
      else if s = ''Unknown'' then Some label_unknown else None)"
  by (simp add: mapping_def)

lemma map_of_mapping_none: "map_of mapping PNone = None"
  by (simp add: mapping_def)

lemma small_int: "0 \<le> (n::int) \<Longrightarrow> n \<le> 4 \<Longrightarrow> n = 0 \<or> n = 1 \<or> n = 2 \<or> n = 3 \<or> n = 4"
  by arith

lemma table_int_label:
  "0 \<le> n \<Longrightarrow> n \<le> 4 \<Longrightarrow> \<exists>l \<in> set labels. map_of mapping (PInt n) = Some l"
  using small_int [of n] by (auto simp: map_of_mapping_int labels_def)

lemma map_status_int_label:
  assumes "0 \<le> n" and "n \<le> 4"
  shows "\<exists>l \<in> set labels. map_status lim (PInt n) = Inr l"
proof -
  from assms have "str_int lim n = Inr [digit_char (nat n)]"
    by (intro str_int_small) simp_all
  with table_int_label [OF assms] show ?thesis
    by (auto simp: map_status_def)
qed

lemma map_status_digits:
  "isdigit s \<Longrightarrow> py_int lim s = Some n \<Longrightarrow>
   map_status lim (PStr s) = (case map_of mapping (PInt n) of Some l \<Rightarrow> Inr l | None \<Rightarrow> Inr s)"
  by (simp add: map_status_def split: option.splits)

lemma not_isdigit_names:
  "s \<in> set [''Ready'', ''Running'', ''Disabled'', ''Queued'', ''Unknown''] \<Longrightarrow> \<not> isdigit s"
  by (auto simp: isdigit_def is_decimal_def)

lemma map_status_name_label:
  "s \<in> set [''Ready'', ''Running'', ''Disabled'', ''Queued'', ''Unknown''] \<Longrightarrow>
   \<exists>l \<in> set labels. map_status lim (PStr s) = Inr l"
  using not_isdigit_names [of s]
  by (auto simp: map_status_def map_of_mapping_str labels_def)

lemma map_status_recognised:
  assumes r: "recognised_status lim v"
  shows "\<exists>l \<in> set labels. map_status lim v = Inr l"
proof (cases v)
  case PNone
  with r show ?thesis by (simp add: recognised_status_def numeric_value_def)
next
  case (PInt n)
  with r show ?thesis
    by (simp add: recognised_status_def numeric_value_def map_status_int_label)
next
  case (PStr s)
  show ?thesis
  proof (cases "numeric_value lim v")
    case None
    with r PStr show ?thesis
      using map_status_name_label [of s lim] by (simp add: recognised_status_def)
  next
    case (Some n)
    with PStr have d: "isdigit s" and i: "py_int lim s = Some n"
      by (auto simp: numeric_value_def split: if_splits)
    from r Some have "0 \<le> n" and "n \<le> 4"
      by (simp_all add: recognised_status_def)
    from table_int_label [OF this] show ?thesis
      using d i PStr by (auto simp: map_status_digits)
  qed
qed

lemma map_status_other: "\<not> recognised_status lim v \<Longrightarrow> map_status lim v = py_str lim v"
proof (cases v)
  case PNone
  then show ?thesis by (simp add: map_status_def map_of_mapping_none)
next
  case (PInt n)
  assume "\<not> recognised_status lim v"
  with PInt have "\<not> (0 \<le> n \<and> n \<le> 4)"
    by (simp add: recognised_status_def numeric_value_def)
  with PInt show ?thesis
    by (auto simp: map_status_def map_of_mapping_int split: sum.splits)
next
  case (PStr s)
  assume nr: "\<not> recognised_status lim v"
  show ?thesis
  proof (cases "isdigit s")
    case True
    show ?thesis
    proof (cases "py_int lim s")
      case None
      have "s \<notin> set [''Ready'', ''Running'', ''Disabled'', ''Queued'', ''Unknown'']"
        using True not_isdigit_names by blast
      with PStr True None show ?thesis
        by (auto simp: map_status_def map_of_mapping_str)
    next
      case (Some n)
      with nr PStr True have "\<not> (0 \<le> n \<and> n \<le> 4)"
        by (simp add: recognised_status_def numeric_value_def)
      with PStr True Some show ?thesis
        by (auto simp: map_status_digits map_of_mapping_int)
    qed
  next
    case False
    with nr PStr have "s \<notin> set [''Ready'', ''Running'', ''Disabled'', ''Queued'', ''Unknown'']"
      by (auto simp: recognised_status_def numeric_value_def)
    with PStr False show ?thesis
      by (auto simp: map_status_def map_of_mapping_str)
  qed
qed

lemma map_result_numeric:
  assumes a: "numeric_value lim c = Some n" and b: "n \<notin> fst ` set known"
    and d: "str_int lim n = Inr d"
  shows "map_result lim c = Inr (''Code '' @ d)"
proof -
  from b have "map_of known n = None"
    by (simp add: map_of_eq_None_iff)
  with a d show ?thesis
    by (cases c) (auto simp: map_result_def numeric_value_def split: if_splits)
qed

lemma map_result_other:
  "numeric_value lim c = None \<Longrightarrow> \<exists>d. py_str lim c = Inr d \<and> map_result lim c = Inr d"
  by (cases c) (auto simp: map_result_def numeric_value_def split: if_splits)

lemma py_str_not_int: "\<forall>n. v \<noteq> PInt n \<Longrightarrow> \<exists>d. py_str lim v = Inr d"
  by (cases v) auto

lemma map_status_returns:
  assumes "\<forall>n. v \<noteq> PInt n"
  shows "\<exists>d. map_status lim v = Inr d"
proof (cases "recognised_status lim v")
  case True
  from map_status_recognised [OF this] show ?thesis by blast
next
  case False
  with py_str_not_int [OF assms, of lim] show ?thesis
    by (simp add: map_status_other)
qed

lemma map_result_returns:
  assumes "\<forall>n. v \<noteq> PInt n"
  shows "\<exists>d. map_result lim v = Inr d"
proof (cases "numeric_value lim v")
  case None
  from map_result_other [OF this] show ?thesis by blast
next
  case (Some k)
  with assms obtain s where "v = PStr s" and "py_int lim s = Some k"
    by (cases v) (auto simp: numeric_value_def split: if_splits)
  from str_int_of_py_int [OF this(2)] obtain d where "str_int lim k = Inr d" ..
  with Some show ?thesis
    by (cases v) (auto simp: map_result_def numeric_value_def split: if_splits option.splits)
qed

lemma zeros_decimal: "list_all is_decimal (replicate n CHR ''0'')"
  by (simp add: list_all_iff is_decimal_def)

lemma digit_val_zero: "digit_val CHR ''0'' = 0"
  by (simp add: digit_val_def)

lemma zeros_value: "foldl (\<lambda>n c. 10 * n + digit_val c) 0 (replicate n CHR ''0'') = 0"
  by (induction n) (simp_all add: digit_val_zero)

lemma zeros_one_value: "foldl (\<lambda>n c. 10 * n + digit_val c) 0 (replicate n CHR ''0'' @ ''1'') = 1"
proof -
  have "digit_val CHR ''1'' = 1"
    by (simp add: digit_val_def)
  then show ?thesis
    by (simp add: zeros_value)
qed

lemma long_digits:
  assumes "lim \<noteq> 0" and "lim < length s" and "list_all is_decimal s"
  shows "isdigit s" and "py_int lim s = None"
    and "map_status lim (PStr s) = Inr s" and "map_result lim (PStr s) = Inr s"
proof -
  from assms(2) have ne: "s \<noteq> []" by auto
  with assms(3) show d: "isdigit s"
    by (auto simp: isdigit_def list_all_iff)
  from assms(1,2) show n: "py_int lim s = None"
    by (simp add: py_int_def)
  have "s \<notin> set [''Ready'', ''Running'', ''Disabled'', ''Queued'', ''Unknown'']"
    using d not_isdigit_names by blast
  with d n show "map_status lim (PStr s) = Inr s"
    by (auto simp: map_status_def map_of_mapping_str)
  from d n show "map_result lim (PStr s) = Inr s"
    by (simp add: map_result_def)
qed

lemma decimal_not_label: "list_all is_decimal s \<Longrightarrow> s \<notin> set labels"
  by (auto simp: labels_def label_ready_def label_running_def label_disabled_def label_queued_def
      label_unknown_def is_decimal_def)

text \<open>
  C7. Every status that is a digit string for a number from 0 to 4 maps to one of the
  five labels, and every digit string for a result code outside the known table is
  rendered as \<open>Code\<close> and the integer. The program does not for every digit string:
  under the digit limit 4300 of the interpreter, \<open>int\<close> refuses a string of 4301
  digits, and the string itself comes back: 4301 zeros as a status, 4300 zeros and a
  one as a result.
\<close>

theorem normalization_counterexample:
  "isdigit (replicate 4301 CHR ''0'') \<and> py_int 0 (replicate 4301 CHR ''0'') = Some 0
   \<and> map_status 4300 (PStr (replicate 4301 CHR ''0'')) = Inr (replicate 4301 CHR ''0'')
   \<and> replicate 4301 CHR ''0'' \<notin> set labels
   \<and> isdigit (replicate 4300 CHR ''0'' @ ''1'') \<and> py_int 0 (replicate 4300 CHR ''0'' @ ''1'') = Some 1
   \<and> 1 \<notin> fst ` set known
   \<and> map_result 4300 (PStr (replicate 4300 CHR ''0'' @ ''1'')) = Inr (replicate 4300 CHR ''0'' @ ''1'')
   \<and> \<not> prefix ''Code '' (replicate 4300 CHR ''0'' @ ''1'')"
proof -
  have z: "list_all is_decimal (replicate 4301 CHR ''0'')"
    by (rule zeros_decimal)
  have o: "list_all is_decimal (replicate 4300 CHR ''0'' @ ''1'')"
    using zeros_decimal [of 4300] by (simp add: is_decimal_def)
  have lz: "(4300::nat) < length (replicate 4301 CHR ''0'')"
    by (simp)
  have lo: "(4300::nat) < length (replicate 4300 CHR ''0'' @ ''1'')"
    by (simp)
  have n: "(4300::nat) \<noteq> 0" by simp
  have pz: "py_int 0 (replicate 4301 CHR ''0'') = Some 0"
    using z by (simp add: py_int_def zeros_value)
  have po: "py_int 0 (replicate 4300 CHR ''0'' @ ''1'') = Some 1"
    using o zeros_one_value [of 4300] by (simp add: py_int_def)
  have k: "(1::int) \<notin> fst ` set known"
    by (simp add: known_def)
  have np: "\<not> prefix ''Code '' (replicate 4300 CHR ''0'' @ ''1'')"
  proof
    assume "prefix ''Code '' (replicate 4300 CHR ''0'' @ ''1'')"
    then obtain zs where "replicate 4300 CHR ''0'' @ ''1'' = ''Code '' @ zs"
      unfolding prefix_def by blast
    then have "hd (replicate 4300 CHR ''0'' @ ''1'') = hd (''Code '' @ zs)"
      by (rule arg_cong)
    then have "hd (replicate 4300 CHR ''0'' @ ''1'') = CHR ''C''"
      by simp
    moreover have "hd (replicate 4300 CHR ''0'' @ ''1'') = CHR ''0''"
      by (simp add: hd_append)
    ultimately show False by simp
  qed
  from long_digits [OF n lz z] long_digits [OF n lo o] decimal_not_label [OF z] pz po k np
  show ?thesis
    by blast
qed

text \<open>
  C7, as the program has it. A status that is a number from 0 to 4, a digit string
  that \<open>int\<close> accepts for such a number, or one of the five state names maps to one
  of the five labels; every other status comes back as its own string. A result code
  that denotes an integer for the program, outside the table of known codes, is
  rendered as \<open>Code\<close>, a space and the decimal digits of that integer (which read back
  as the integer); a result that denotes no integer comes back as its own string.
  On a value that is not an integer, neither function raises.
\<close>

theorem normalization_total:
  "(recognised_status lim v \<longrightarrow> (\<exists>l \<in> set labels. map_status lim v = Inr l))
   \<and> (\<not> recognised_status lim v \<longrightarrow> map_status lim v = py_str lim v)
   \<and> (numeric_value lim c = Some k \<and> k \<notin> fst ` set known \<and> str_int lim k = Inr d \<longrightarrow>
        map_result lim c = Inr (''Code '' @ d))
   \<and> (numeric_value lim c = None \<longrightarrow> (\<exists>x. py_str lim c = Inr x \<and> map_result lim c = Inr x))
   \<and> ((\<forall>n. v \<noteq> PInt n) \<longrightarrow> (\<exists>x. map_status lim v = Inr x) \<and> (\<exists>x. map_result lim v = Inr x))
   \<and> (0 \<le> k \<and> str_int lim k = Inr d \<longrightarrow> py_int lim d = Some k)"
  using map_status_recognised [of lim v] map_status_other [of lim v]
    map_result_numeric [of lim c k d] map_result_other [of lim c]
    map_status_returns [of v lim] map_result_returns [of v lim] str_int_round_trip [of k lim d]
  by blast

text \<open>counterexample\<close>

theorem normalization_total_witness:
  "map_status 4300 (PStr ''03'') = Inr label_ready \<and> label_ready \<in> set labels
   \<and> map_status 4300 (PStr ''Paused'') = Inr ''Paused''
   \<and> map_result 4300 (PStr ''007'') = Inr ''Code 7''
   \<and> map_result 4300 (PStr ''n/a'') = Inr ''n/a''
   \<and> py_int 4300 ''7'' = Some 7"
proof -
  have r: "recognised_status 4300 (PStr ''03'')"
    by (simp add: recognised_status_def numeric_value_def isdigit_def py_int_def is_decimal_def digit_val_def)
  have nr: "\<not> recognised_status 4300 (PStr ''Paused'')"
    by (simp add: recognised_status_def numeric_value_def isdigit_def py_int_def is_decimal_def)
  have n7: "numeric_value 4300 (PStr ''007'') = Some 7"
    by (simp add: numeric_value_def isdigit_def py_int_def is_decimal_def digit_val_def)
  have k7: "(7::int) \<notin> fst ` set known"
    by (simp add: known_def)
  have nn: "numeric_value 4300 (PStr ''n/a'') = None"
    by (simp add: numeric_value_def isdigit_def is_decimal_def)
  have s7: "str_int 4300 7 = Inr ''7''"
    by (simp add: str_int_def show_nat.simps digit_char_def)
  have e: "map_status 4300 (PStr ''03'') = Inr label_ready"
    by (simp add: map_status_def isdigit_def py_int_def is_decimal_def digit_val_def mapping_def)
  have p: "\<forall>n. PStr ''03'' \<noteq> PInt n" "\<forall>n. PStr ''Paused'' \<noteq> PInt n"
    by simp_all
  show ?thesis
    using normalization_total [of 4300 "PStr ''03''" "PStr ''007''" 7 "''7''"]
      normalization_total [of 4300 "PStr ''Paused''" "PStr ''n/a''" 7 "''7''"]
    by (simp add: r nr n7 k7 nn s7 e p labels_def)
qed

lemma lower_alphabet: "lower ''ABCDEFGHIJKLMNOPQRSTUVWXYZ'' = ''abcdefghijklmnopqrstuvwxyz''"
  by code_simp

text \<open>
  C9. An action counts as a Python action exactly when its command ends in the name of
  a Python executable or contains a Python directory, or its arguments end with
  \<open>.py\<close> or contain a reference to a \<open>.py\<close> file. The program does not take every
  such reference: arguments that hold a quoted path of a \<open>.py\<close> file, with a command
  that is not recognised, are not a Python action, and the record is filtered out.
\<close>

theorem python_heuristic_counterexample:
  "sublist ''.py'' (lower ([dq] @ ''C:'' @ [bsl] @ ''jobs'' @ [bsl] @ ''job.py'' @ [dq]))
   \<and> \<not> is_python_action
         (Some \<lparr>Command = Some (''C:'' @ [bsl] @ ''Tools'' @ [bsl] @ ''py.exe''),
                Arguments = Some ([dq] @ ''C:'' @ [bsl] @ ''jobs'' @ [bsl] @ ''job.py'' @ [dq]),
                WorkingDirectory = None\<rparr>)
   \<and> \<not> passes_filters None None True quoted_item"
  by code_simp

text \<open>
  C9, as the program has it. An action counts as a Python action exactly when its
  command, in small letters, ends with \<open>python.exe\<close> or contains \<open>\python\<close> or
  \<open>/python\<close>, or its arguments, in small letters, end with \<open>.py\<close> or contain \<open>.py\<close>
  followed by a space. Capital letters become small ones, so that two actions whose
  commands and arguments differ in case only count alike. With the Python filter on, a
  record passes exactly when it passes the other filters and one of its actions is a
  Python action; with no filter every record passes.
\<close>

theorem python_heuristic:
  "(is_python_action (Some a) \<longleftrightarrow>
      suffix ''python.exe'' (lower (opt_str (Command a)))
      \<or> sublist (bsl # ''python'') (lower (opt_str (Command a)))
      \<or> sublist ''/python'' (lower (opt_str (Command a)))
      \<or> suffix ''.py'' (lower (opt_str (Arguments a)))
      \<or> sublist ''.py '' (lower (opt_str (Arguments a))))
   \<and> lower ''ABCDEFGHIJKLMNOPQRSTUVWXYZ'' = ''abcdefghijklmnopqrstuvwxyz''
   \<and> (lower (opt_str (Command a)) = lower (opt_str (Command b))
        \<and> lower (opt_str (Arguments a)) = lower (opt_str (Arguments b)) \<longrightarrow>
        is_python_action (Some a) = is_python_action (Some b))
   \<and> (passes_filters au nc True it \<longleftrightarrow>
        passes_filters au nc False it
        \<and> (\<exists>act \<in> set (case Actions it of None \<Rightarrow> [] | Some xs \<Rightarrow> xs). is_python_action act))
   \<and> passes_filters None None False it"
proof (intro conjI)
  show "lower ''ABCDEFGHIJKLMNOPQRSTUVWXYZ'' = ''abcdefghijklmnopqrstuvwxyz''"
    by (rule lower_alphabet)
qed (auto simp: is_python_action_def passes_filters_def list_ex_iff)

theorem python_heuristic_witness:
  "passes_filters None None True python_item \<and> passes_filters None None True upper_item
   \<and> \<not> passes_filters None None True other_item
   \<and> list_tasks 4300 None None True [python_item, upper_item, other_item]
       = Inr [python_item\<lparr>Status := PStr label_ready, LastRunResult := PStr ''Succeeded''\<rparr>,
              upper_item\<lparr>Status := PStr label_ready, LastRunResult := PStr ''Not executed yet''\<rparr>]"
proof -
  have a: "is_python_action (Some \<lparr>Command = Some (''C:'' @ [bsl] @ ''Python'' @ [bsl] @ ''python.exe''),
             Arguments = Some ''job.py --x 1'', WorkingDirectory = None\<rparr>)"
    by code_simp
  have u: "is_python_action (Some \<lparr>Command = Some (''C:'' @ [bsl] @ ''PY'' @ [bsl] @ ''PYTHON.EXE''),
             Arguments = Some ''RUN.PY'', WorkingDirectory = None\<rparr>)"
    by code_simp
  have b: "\<not> is_python_action (Some \<lparr>Command = Some (''C:'' @ [bsl] @ ''Tools'' @ [bsl] @ ''run.exe''),
             Arguments = Some ''run.exe'', WorkingDirectory = None\<rparr>)"
    by code_simp
  have p: "passes_filters None None True python_item"
    using python_heuristic [of _ _ None None python_item] a by (simp add: python_item_def)
  have pu: "passes_filters None None True upper_item"
    using python_heuristic [of _ _ None None upper_item] u by (simp add: upper_item_def)
  have q: "\<not> passes_filters None None True other_item"
    using python_heuristic [of _ _ None None other_item] b by (simp add: other_item_def)
  have n1: "normalise 4300 python_item
              = Inr (python_item\<lparr>Status := PStr label_ready, LastRunResult := PStr ''Succeeded''\<rparr>)"
    by (simp add: normalise_def python_item_def map_status_def map_of_mapping_int map_result_def
        known_def str_int_def show_nat.simps digit_char_def)
  have n2: "normalise 4300 upper_item
              = Inr (upper_item\<lparr>Status := PStr label_ready, LastRunResult := PStr ''Not executed yet''\<rparr>)"
    by (simp add: normalise_def upper_item_def map_status_def map_of_mapping_int map_result_def
        isdigit_def py_int_def is_decimal_def digit_val_def known_def str_int_def show_nat.simps
        digit_char_def)
  have n3: "normalise 4300 other_item
              = Inr (other_item\<lparr>Status := PStr label_ready, LastRunResult := PStr ''Succeeded''\<rparr>)"
    by (simp add: normalise_def other_item_def map_status_def map_of_mapping_int map_result_def
        known_def str_int_def show_nat.simps digit_char_def)
  have p': "passes_filters None None True
              (python_item\<lparr>Status := PStr label_ready, LastRunResult := PStr ''Succeeded''\<rparr>)"
    using p by (simp add: passes_filters_def python_item_def)
  have pu': "passes_filters None None True
              (upper_item\<lparr>Status := PStr label_ready, LastRunResult := PStr ''Not executed yet''\<rparr>)"
    using pu by (simp add: passes_filters_def upper_item_def)
  have q': "\<not> passes_filters None None True
              (other_item\<lparr>Status := PStr label_ready, LastRunResult := PStr ''Succeeded''\<rparr>)"
    using q by (simp add: passes_filters_def other_item_def)
  have l: "list_tasks 4300 None None True [python_item, upper_item, other_item]
       = Inr [python_item\<lparr>Status := PStr label_ready, LastRunResult := PStr ''Succeeded''\<rparr>,
              upper_item\<lparr>Status := PStr label_ready, LastRunResult := PStr ''Not executed yet''\<rparr>]"
    by (simp add: list_tasks_def n1 n2 n3 p' pu' q')
  from p pu q l show ?thesis
    by simp
qed

end
